theory Spec2Isabelle
  imports Complex_Main "HOL-Library.Sublist" "HOL-Library.Word"
begin

section \<open>Python string operations used by \<^verbatim>\<open>nodes.py\<close>\<close>

text \<open>
  A Python \<^verbatim>\<open>str\<close> is a sequence of code points; a \<^typ>\<open>char\<close> here is one code
  point below 256. On that range the definitions below are exactly what CPython's
  \<^verbatim>\<open>str.isspace\<close>, \<^verbatim>\<open>str.strip()\<close>, \<^verbatim>\<open>str.lower()\<close>, \<^verbatim>\<open>str.split(sep)\<close>,
  \<^verbatim>\<open>str.replace("_", " ")\<close> and \<^verbatim>\<open>sep.join(xs)\<close> compute. Code points from 256 on
  (where \<^verbatim>\<open>lower\<close> consults the Unicode tables) are outside the model.
\<close>

definition isspace :: "char \<Rightarrow> bool" where
  "isspace c =
     (let n = (of_char c :: nat)
      in (9 \<le> n \<and> n \<le> 13) \<or> (28 \<le> n \<and> n \<le> 32) \<or> n = 133 \<or> n = 160)"

definition str_strip :: "string \<Rightarrow> string" where
  "str_strip s = rev (dropWhile isspace (rev (dropWhile isspace s)))"

definition lower_char :: "char \<Rightarrow> char" where
  "lower_char c =
     (let n = (of_char c :: nat)
      in if (65 \<le> n \<and> n \<le> 90) \<or> (192 \<le> n \<and> n \<le> 222 \<and> n \<noteq> 215)
         then char_of (n + 32) else c)"

definition str_lower :: "string \<Rightarrow> string" where
  "str_lower s = map lower_char s"

text \<open>\<^verbatim>\<open>s.split(sep)\<close> for a one-character separator: every occurrence splits, empty
  fields are kept, and the empty string gives one empty field.\<close>

fun str_split :: "char \<Rightarrow> string \<Rightarrow> string list" where
  "str_split sep [] = [[]]"
| "str_split sep (c # cs) =
     (if c = sep then [] # str_split sep cs
      else (case str_split sep cs of
              [] \<Rightarrow> [[c]]
            | w # ws \<Rightarrow> (c # w) # ws))"

fun str_join :: "string \<Rightarrow> string list \<Rightarrow> string" where
  "str_join sep [] = []"
| "str_join sep [x] = x"
| "str_join sep (x # y # ys) = x @ sep @ str_join sep (y # ys)"

text \<open>\<^verbatim>\<open>tag.replace("_", " ")\<close>.\<close>

definition replace_underscores :: "string \<Rightarrow> string" where
  "replace_underscores tag = map (\<lambda>c. if c = CHR ''_'' then CHR '' '' else c) tag"

section \<open>Tag post-processing (\<^verbatim>\<open>tag_batch\<close>, lines 452--496)\<close>

text \<open>Lines 453--456: the loop that builds \<^verbatim>\<open>processed_tags\<close>.\<close>

fun process_tags :: "bool \<Rightarrow> string list \<Rightarrow> string list \<Rightarrow> string list" where
  "process_tags replace_underscore [] processed_tags = processed_tags"
| "process_tags replace_underscore (tag # tags) processed_tags =
     process_tags replace_underscore tags
       (processed_tags @ [if replace_underscore then replace_underscores tag else tag])"

text \<open>Line 459:
  \<^verbatim>\<open>[t.strip().lower() for t in exclude_tags.split(",") if t.strip()]\<close>.\<close>

definition parse_exclude :: "string \<Rightarrow> string list" where
  "parse_exclude exclude_tags =
     map (\<lambda>t. str_lower (str_strip t))
       (filter (\<lambda>t. str_strip t \<noteq> []) (str_split CHR '','' exclude_tags))"

text \<open>Line 489 compares \<^verbatim>\<open>prob\<close>, a \<^verbatim>\<open>numpy.float32\<close>, with \<^verbatim>\<open>threshold\<close>, a Python
  float (a double). Every float is a real number, and what NumPy compares depends on its
  promotion rules: under NumPy before 2.0 both operands become \<^verbatim>\<open>float64\<close>, so the
  values are compared as they are; from NumPy 2.0 on (NEP 50) the Python float is first
  rounded to \<^verbatim>\<open>float32\<close>.\<close>

datatype promotion = Legacy | NEP50

text \<open>Rounding to the nearest integer, ties to even.\<close>

definition round_half_even :: "real \<Rightarrow> int" where
  "round_half_even r =
     (let f = \<lfloor>r\<rfloor>; d = r - of_int f
      in if d < 1 / 2 then f
         else if 1 / 2 < d then f + 1
         else if even f then f else f + 1)"

text \<open>\<^verbatim>\<open>np.float32(x)\<close> for a double \<open>x\<close>: the nearest multiple of the spacing of
  \<^verbatim>\<open>float32\<close> values around \<open>x\<close>, which is \<open>2 powi (e - 23)\<close> for \<open>x\<close> between
  \<open>2 powi e\<close> and \<open>2 powi (e + 1)\<close> and \<open>2 powi (- 149)\<close> below the normal range.
  Where the source gets an infinity (from \<open>2 powi 128\<close> on), the value here is beyond every
  finite \<^verbatim>\<open>float32\<close> on the same side, so a comparison with a finite probability comes out
  the same.\<close>

definition float32_round :: "real \<Rightarrow> real" where
  "float32_round x =
     (if x = 0 then 0
      else (let e = max \<lfloor>log 2 \<bar>x\<bar>\<rfloor> (- 126);
                q = 2 powi (e - 23)
            in of_int (round_half_even (x / q)) * q))"

text \<open>The finite \<^verbatim>\<open>float32\<close> values.\<close>

definition is_float32 :: "real \<Rightarrow> bool" where
  "is_float32 x = (\<exists>m k. x = of_int m * 2 powi k \<and> \<bar>m\<bar> < 2 ^ 24 \<and> - 149 \<le> k \<and> k \<le> 104)"

text \<open>The value NumPy gives a Python float that it compares with a \<^verbatim>\<open>float32\<close>.\<close>

definition weak_scalar :: "promotion \<Rightarrow> real \<Rightarrow> real" where
  "weak_scalar promo x = (case promo of Legacy \<Rightarrow> x | NEP50 \<Rightarrow> float32_round x)"

text \<open>\<^verbatim>\<open>prob > threshold\<close> for a \<^verbatim>\<open>float32\<close> \<open>prob\<close> and a Python float
  \<open>threshold\<close>.\<close>

definition np_greater :: "promotion \<Rightarrow> real \<Rightarrow> real \<Rightarrow> bool" where
  "np_greater promo prob threshold = (prob > weak_scalar promo threshold)"

text \<open>Lines 487--490: the loop over \<^verbatim>\<open>zip(processed_tags, probs)\<close>;
  \<^verbatim>\<open>zip\<close> stops at the shorter sequence, as \<^const>\<open>zip\<close> does.\<close>

fun filter_tags :: "promotion \<Rightarrow> real \<Rightarrow> string list \<Rightarrow> (string \<times> real) list \<Rightarrow> string list \<Rightarrow> string list" where
  "filter_tags promo threshold exclude_list [] result_tags = result_tags"
| "filter_tags promo threshold exclude_list ((tag, prob) # rest) result_tags =
     filter_tags promo threshold exclude_list rest
       (if np_greater promo prob threshold \<and> str_lower tag \<notin> set exclude_list
        then result_tags @ [tag] else result_tags)"

text \<open>Lines 493--496: the output string.\<close>

definition build_output :: "string \<Rightarrow> string list \<Rightarrow> string" where
  "build_output prepend_tags result_tags =
     (let output_tags = str_strip prepend_tags;
          output_tags = (if output_tags \<noteq> [] \<and> result_tags \<noteq> []
                         then output_tags @ '', '' else output_tags)
      in output_tags @ str_join '', '' result_tags)"

section \<open>The environment: file system, remote store, inference runtime\<close>

text \<open>
  Everything \<^verbatim>\<open>nodes.py\<close> calls outside itself is a field of \<open>env\<close>: the functions
  below are written against any behaviour of these collaborators. A call that can raise
  returns the exception as a value.
\<close>

datatype exn = Exn string

type_synonym fsys = "string \<rightharpoonup> string"

text \<open>An \<^verbatim>\<open>onnxruntime.InferenceSession\<close>: the providers it runs on and the
  name and shape of each declared input (\<^verbatim>\<open>get_inputs()\<close>); the dimensions of a shape
  are integers.\<close>

record session =
  sess_providers :: "string list"
  sess_inputs :: "(string \<times> int list) list"

type_synonym rgb = "8 word \<times> 8 word \<times> 8 word"

text \<open>An image (a \<^verbatim>\<open>(H, W, 3)\<close> array of \<^verbatim>\<open>uint8\<close>, or a PIL image in mode RGB):
  \<open>pixel img row col\<close>.\<close>

record image =
  width :: nat
  height :: nat
  pixel :: "nat \<Rightarrow> nat \<Rightarrow> rgb"

type_synonym tensor = "real list list list list"

record env =
  package_dir :: string
  mkdir :: "string \<Rightarrow> fsys \<Rightarrow> exn option"
  hf_hub_download :: "string \<Rightarrow> string \<Rightarrow> string \<Rightarrow> fsys \<Rightarrow> exn option \<times> fsys"
  rename :: "string \<Rightarrow> string \<Rightarrow> fsys \<Rightarrow> exn option \<times> fsys"
  InferenceSession :: "fsys \<Rightarrow> string \<Rightarrow> string list \<Rightarrow> exn + session"
  read_csv :: "string \<Rightarrow> exn + string list list"
  numpy_promotion :: promotion
  float_div :: "int \<Rightarrow> int \<Rightarrow> real"
  float_mul :: "int \<Rightarrow> real \<Rightarrow> real"
  resize :: "image \<Rightarrow> int \<times> int \<Rightarrow> image"
  sess_run :: "session \<Rightarrow> string \<Rightarrow> tensor \<Rightarrow> exn + real list"
  path_join :: "string \<Rightarrow> string \<Rightarrow> string"
  path_stem :: "string \<Rightarrow> string"
  write_text :: "string \<Rightarrow> string \<Rightarrow> fsys \<Rightarrow> exn option \<times> fsys"

text \<open>
  \<^item> \<open>mkdir env dir fs\<close>: \<^verbatim>\<open>Path.mkdir(exist_ok=True)\<close>; directories are not part of
    \<open>fsys\<close>, so only whether it raises is recorded.
  \<^item> \<open>hf_hub_download env repo_id filename local_dir fs\<close>: the exception raised, if any,
    and the file system the call leaves behind.
  \<^item> \<open>rename env src dst fs\<close>: \<^verbatim>\<open>Path(src).rename(dst)\<close>, likewise.
  \<^item> \<open>InferenceSession env fs model_path providers\<close>: the constructor.
  \<^item> \<open>read_csv env content\<close>: all rows \<^verbatim>\<open>csv.reader\<close> yields for a file's content, or
    the exception that opening, decoding or parsing raises.
  \<^item> \<open>numpy_promotion env\<close>: the promotion rules of the installed NumPy.
  \<^item> \<open>float_div env a b\<close> and \<open>float_mul env a r\<close>: the double-precision \<^verbatim>\<open>a / b\<close>
    and \<^verbatim>\<open>a * r\<close> with their rounding.
  \<^item> \<open>resize env img size\<close>: \<^verbatim>\<open>img.resize(size, Image.LANCZOS)\<close>, for a size with
    positive entries.
  \<^item> \<open>sess_run env sess input_name inp\<close>: \<^verbatim>\<open>sess.run(None, {input_name: inp})[0][0]\<close>.
  \<^item> \<open>path_join env dir name\<close>: \<^verbatim>\<open>str(Path(dir) / name)\<close>.
  \<^item> \<open>path_stem env filename\<close>: \<^verbatim>\<open>Path(filename).stem\<close>.
  \<^item> \<open>write_text env path text fs\<close>: \<^verbatim>\<open>open(path, "w")\<close> and \<^verbatim>\<open>f.write(text)\<close>.
\<close>

section \<open>Global state\<close>

text \<open>The dictionary \<^verbatim>\<open>model_cache\<close> (lines 54--60); \<open>None\<close> is Python's \<^verbatim>\<open>None\<close>.\<close>

record cache =
  c_session :: "session option"
  c_tags :: "string list option"
  c_model_name :: "string option"
  c_input_name :: "string option"
  c_input_size :: "int option"

datatype event =
    EnsureAvailable string
  | Download string string
  | NewSession string "string list" bool
  | Run string

text \<open>The process state: the cache, the files on disk, \<^verbatim>\<open>batch_progress.current_image\<close>,
  and a log of the calls made to asset resolution, the remote store and the runtime
  (latest last). \<open>NewSession path providers ok\<close> is one call of the session constructor
  and whether it returned a session.\<close>

record world =
  model_cache :: cache
  files :: fsys
  current_image :: nat
  trace :: "event list"

definition record_event :: "event \<Rightarrow> world \<Rightarrow> world" where
  "record_event e w = w\<lparr>trace := trace w @ [e]\<rparr>"

definition empty_cache :: cache where
  "empty_cache = \<lparr>c_session = None, c_tags = None, c_model_name = None,
                   c_input_name = None, c_input_size = None\<rparr>"

section \<open>The model registry (lines 63--88)\<close>

record model_config =
  cfg_repo_id :: string
  cfg_filename :: string
  cfg_csv_filename :: string
  cfg_display_name :: string

definition MODEL_CONFIGS :: "(string \<times> model_config) list" where
  "MODEL_CONFIGS =
     [(''wd-vit-tagger-v3'',
         \<lparr>cfg_repo_id = ''SmilingWolf/wd-vit-tagger-v3'', cfg_filename = ''model.onnx'',
          cfg_csv_filename = ''selected_tags.csv'', cfg_display_name = ''WD ViT Tagger v3''\<rparr>),
      (''wd-swinv2-tagger-v3'',
         \<lparr>cfg_repo_id = ''SmilingWolf/wd-swinv2-tagger-v3'', cfg_filename = ''model.onnx'',
          cfg_csv_filename = ''selected_tags.csv'', cfg_display_name = ''WD SwinV2 Tagger v3''\<rparr>),
      (''wd-eva02-large-tagger-v3'',
         \<lparr>cfg_repo_id = ''SmilingWolf/wd-eva02-large-tagger-v3'', cfg_filename = ''model.onnx'',
          cfg_csv_filename = ''selected_tags.csv'', cfg_display_name = ''WD EVA02 Large Tagger v3''\<rparr>),
      (''wd-convnext-tagger-v3'',
         \<lparr>cfg_repo_id = ''SmilingWolf/wd-convnext-tagger-v3'', cfg_filename = ''model.onnx'',
          cfg_csv_filename = ''selected_tags.csv'', cfg_display_name = ''WD ConvNeXT Tagger v3''\<rparr>)]"

section \<open>\<^verbatim>\<open>ensure_model_available\<close> (lines 90--157)\<close>

definition exists :: "fsys \<Rightarrow> string \<Rightarrow> bool" where
  "exists fs p = (fs p \<noteq> None)"

definition model_dir :: "env \<Rightarrow> string" where
  "model_dir env = path_join env (package_dir env) ''models''"

text \<open>Lines 122--134 and 137--149 are the same block, once for the model file and once for
  the label file: fetch \<open>remote_name\<close> into the models directory and, if it is found there,
  rename it to \<open>local_path\<close>. The result is the exception raised, if any, by the fetch or
  by the rename.\<close>

definition download_as :: "env \<Rightarrow> model_config \<Rightarrow> string \<Rightarrow> string \<Rightarrow> world \<Rightarrow> exn option \<times> world" where
  "download_as env config remote_name local_path w =
     (case hf_hub_download env (cfg_repo_id config) remote_name (model_dir env) (files w) of
        (Some e, fs') \<Rightarrow>
          (Some e, record_event (Download (cfg_repo_id config) remote_name) (w\<lparr>files := fs'\<rparr>))
      | (None, fs') \<Rightarrow>
          (let downloaded = path_join env (model_dir env) remote_name
           in if exists fs' downloaded
              then (case rename env downloaded local_path fs' of
                      (r, fs'') \<Rightarrow>
                        (r, record_event (Download (cfg_repo_id config) remote_name)
                              (w\<lparr>files := fs''\<rparr>)))
              else (None,
                    record_event (Download (cfg_repo_id config) remote_name)
                      (w\<lparr>files := fs'\<rparr>))))"

text \<open>The result is \<open>Inl e\<close> when the call raises (only \<^verbatim>\<open>mkdir\<close> is outside the
  \<^verbatim>\<open>try\<close>), and \<open>Inr (success, model_path, csv_path)\<close> when it returns.\<close>

definition ensure_model_available :: "env \<Rightarrow> string \<Rightarrow> world \<Rightarrow> (exn + bool \<times> string \<times> string) \<times> world" where
  "ensure_model_available env model_name w0 =
     (let w = record_event (EnsureAvailable model_name) w0 in
      case map_of MODEL_CONFIGS model_name of
        None \<Rightarrow> (Inr (False, [], []), w)
      | Some config \<Rightarrow>
          (case mkdir env (model_dir env) (files w) of
             Some e \<Rightarrow> (Inl e, w)
           | None \<Rightarrow>
               (let model_path = path_join env (model_dir env) (model_name @ ''.onnx'');
                    csv_path = path_join env (model_dir env) (model_name @ ''.csv'')
                in if exists (files w) model_path \<and> exists (files w) csv_path
                   then (Inr (True, model_path, csv_path), w)
                   else
                     (case (if \<not> exists (files w) model_path
                            then download_as env config (cfg_filename config) model_path w
                            else (None, w)) of
                        (Some e, w1) \<Rightarrow> (Inr (False, [], []), w1)
                      | (None, w1) \<Rightarrow>
                          (case (if \<not> exists (files w1) csv_path
                                 then download_as env config (cfg_csv_filename config) csv_path w1
                                 else (None, w1)) of
                             (Some e, w2) \<Rightarrow> (Inr (False, [], []), w2)
                           | (None, w2) \<Rightarrow> (Inr (True, model_path, csv_path), w2))))))"

section \<open>\<^verbatim>\<open>load_model_once\<close> (lines 169--230)\<close>

text \<open>Lines 196--200: the constructor, and once more on the CPU provider alone when it
  raises.\<close>

definition new_session :: "env \<Rightarrow> string \<Rightarrow> string list \<Rightarrow> world \<Rightarrow> (exn + session) \<times> world" where
  "new_session env model_path providers w =
     (case InferenceSession env (files w) model_path providers of
        Inr sess \<Rightarrow> (Inr sess, record_event (NewSession model_path providers True) w)
      | Inl e \<Rightarrow>
          (let w' = record_event (NewSession model_path providers False) w;
               cpu = [''CPUExecutionProvider'']
           in case InferenceSession env (files w) model_path cpu of
                Inr sess \<Rightarrow> (Inr sess, record_event (NewSession model_path cpu True) w')
              | Inl e' \<Rightarrow> (Inl e', record_event (NewSession model_path cpu False) w')))"

text \<open>Lines 210--216, after the header row: the second column of every row that has
  one.\<close>

fun load_tags :: "string list list \<Rightarrow> string list \<Rightarrow> string list" where
  "load_tags [] tags = tags"
| "load_tags (row # rows) tags =
     load_tags rows (case row of _ # col1 # _ \<Rightarrow> tags @ [col1] | _ \<Rightarrow> tags)"

definition load_model_once :: "env \<Rightarrow> string \<Rightarrow> bool \<Rightarrow> world \<Rightarrow> bool \<times> world" where
  "load_model_once env model_name use_gpu w =
     (if c_model_name (model_cache w) = Some model_name \<and> c_session (model_cache w) \<noteq> None
      then (True, w)
      else
        (case ensure_model_available env model_name w of
           (Inl e, w1) \<Rightarrow> (False, w1)
         | (Inr (success, model_path, csv_path), w1) \<Rightarrow>
             if \<not> success then (False, w1)
             else
               (let providers = (if use_gpu
                                 then [''CUDAExecutionProvider'', ''CPUExecutionProvider'']
                                 else [''CPUExecutionProvider''])
                in case new_session env model_path providers w1 of
                     (Inl e, w2) \<Rightarrow> (False, w2)
                   | (Inr sess, w2) \<Rightarrow>
                       (case sess_inputs sess of
                          [] \<Rightarrow> (False, w2)
                        | (input_name, shape) # _ \<Rightarrow>
                            (case shape of
                               _ # input_size # _ \<Rightarrow>
                                 (case files w2 csv_path of
                                    None \<Rightarrow> (False, w2)
                                  | Some content \<Rightarrow>
                                      (case read_csv env content of
                                         Inl e \<Rightarrow> (False, w2)
                                       | Inr [] \<Rightarrow> (False, w2)
                                       | Inr (header # rows) \<Rightarrow>
                                           (True,
                                            w2\<lparr>model_cache :=
                                                 \<lparr>c_session = Some sess,
                                                  c_tags = Some (load_tags rows []),
                                                  c_model_name = Some model_name,
                                                  c_input_name = Some input_name,
                                                  c_input_size = Some input_size\<rparr>\<rparr>)))
                             | _ \<Rightarrow> (False, w2))))))"

section \<open>Preprocessing (\<^verbatim>\<open>tag_batch\<close>, lines 462--481)\<close>

text \<open>\<^verbatim>\<open>int(x)\<close> on a float: truncation towards zero.\<close>

definition py_int :: "real \<Rightarrow> int" where
  "py_int x = (if 0 \<le> x then \<lfloor>x\<rfloor> else \<lceil>x\<rceil>)"

definition white :: rgb where
  "white = (255, 255, 255)"

text \<open>\<^verbatim>\<open>Image.new("RGB", (edge, edge), color)\<close>.\<close>

definition Image_new :: "int \<Rightarrow> rgb \<Rightarrow> image" where
  "Image_new edge color = \<lparr>width = nat edge, height = nat edge, pixel = (\<lambda>row col. color)\<rparr>"

text \<open>\<^verbatim>\<open>square.paste(img, pos)\<close> with \<open>pos = (x, y)\<close>: the pixels of \<open>img\<close> replace the
  ones of \<open>square\<close> in the box of \<open>img\<close>'s own size whose upper left corner is \<open>pos\<close>.\<close>

definition paste :: "image \<Rightarrow> image \<Rightarrow> int \<times> int \<Rightarrow> image" where
  "paste square img pos =
     square\<lparr>pixel := (\<lambda>row col.
        let x = int col - fst pos; y = int row - snd pos
        in if 0 \<le> x \<and> x < int (width img) \<and> 0 \<le> y \<and> y < int (height img)
           then pixel img (nat y) (nat x)
           else pixel square row col)\<rparr>"

text \<open>\<^verbatim>\<open>np.array(square)\<close>: rows, columns, channels in the order red, green, blue.\<close>

definition np_array :: "image \<Rightarrow> 8 word list list list" where
  "np_array img =
     map (\<lambda>row. map (\<lambda>col. case pixel img row col of (r, g, b) \<Rightarrow> [r, g, b]) [0..<width img])
       [0..<height img]"

text \<open>\<^verbatim>\<open>.astype(np.float32)\<close>: every \<^verbatim>\<open>uint8\<close> value is a float of the same value.\<close>

definition astype_float32 :: "8 word list list list \<Rightarrow> real list list list" where
  "astype_float32 a = map (map (map (\<lambda>v. real (unat v)))) a"

text \<open>\<^verbatim>\<open>a[:, :, ::-1]\<close>.\<close>

definition reverse_channels :: "real list list list \<Rightarrow> real list list list" where
  "reverse_channels a = map (map rev) a"

text \<open>\<^verbatim>\<open>np.expand_dims(a, 0)\<close>.\<close>

definition expand_dims :: "real list list list \<Rightarrow> tensor" where
  "expand_dims a = [a]"

text \<open>Lines 462--481; \<open>None\<close> is each path on which \<^verbatim>\<open>tag_batch\<close> returns the empty
  string there: the two \<^verbatim>\<open>return ("",)\<close> and the \<^verbatim>\<open>ValueError\<close> of \<^verbatim>\<open>Image.new\<close>
  on a negative size.\<close>

definition preprocess :: "env \<Rightarrow> image option \<Rightarrow> int \<Rightarrow> tensor option" where
  "preprocess env image_arr input_size =
     (case image_arr of
        None \<Rightarrow> None
      | Some img \<Rightarrow>
          if height img * width img * 3 = 0 \<or> height img = 0 \<or> width img = 0 then None
          else
            (let ratio = float_div env input_size (int (max (width img) (height img)));
                 new_size = (py_int (float_mul env (int (width img)) ratio),
                             py_int (float_mul env (int (height img)) ratio))
             in if fst new_size \<le> 0 \<or> snd new_size \<le> 0 then None
                else if input_size < 0 then None
                else
                  (let resized = resize env img new_size;
                       square = Image_new input_size white;
                       paste_pos = ((input_size - fst new_size) div 2,
                                    (input_size - snd new_size) div 2);
                       square = paste square resized paste_pos
                   in Some (expand_dims (reverse_channels (astype_float32 (np_array square)))))))"

section \<open>\<^verbatim>\<open>BSS_WD14BatchTagger.tag_batch\<close> (lines 413--516)\<close>

text \<open>Lines 499--507: the tag file; a failed write is logged and nothing more.\<close>

definition save_tags :: "env \<Rightarrow> string \<Rightarrow> string \<Rightarrow> string \<Rightarrow> world \<Rightarrow> world" where
  "save_tags env folder_path filename output_tags w =
     (if folder_path \<noteq> []
      then (let base_name = path_stem env filename;
                txt_path = path_join env folder_path (base_name @ ''.txt'')
            in w\<lparr>files := snd (write_text env txt_path output_tags (files w))\<rparr>)
      else w)"

text \<open>Lines 436--439: the logical id in front of the first \<^verbatim>\<open>|\<close> of the dropdown entry.\<close>

definition selected_model_name :: "string \<Rightarrow> string" where
  "selected_model_name model =
     (if CHR ''|'' \<in> set model
      then (case str_split CHR ''|'' model of [] \<Rightarrow> [] | m # _ \<Rightarrow> m)
      else model)"

text \<open>The result is the string of the returned 1-tuple and the state the call leaves.
  Every \<open>([], _)\<close> below is a \<^verbatim>\<open>return ("",)\<close>: the explicit ones and the handler of
  line 514, which catches whatever the body raises. Of lines 509--511 the counter
  \<^verbatim>\<open>current_image\<close> is kept; the host's progress bar and the logger are not part of the
  state.\<close>

definition tag_batch ::
  "env \<Rightarrow> image option \<Rightarrow> string \<Rightarrow> string \<Rightarrow> string \<Rightarrow> real \<Rightarrow> real \<Rightarrow> bool \<Rightarrow> bool \<Rightarrow>
   string \<Rightarrow> string \<Rightarrow> world \<Rightarrow> string \<times> world" where
  "tag_batch env image_arr filename folder_path model threshold character_threshold
     replace_underscore use_gpu prepend_tags exclude_tags w =
     (let model_name = selected_model_name model
      in case load_model_once env model_name use_gpu w of
           (False, w1) \<Rightarrow> ([], w1)
         | (True, w1) \<Rightarrow>
             (case (c_session (model_cache w1), c_tags (model_cache w1),
                    c_input_name (model_cache w1), c_input_size (model_cache w1)) of
                (Some sess, Some tags, Some input_name, Some input_size) \<Rightarrow>
                  (let processed_tags = process_tags replace_underscore tags [];
                       exclude_list = parse_exclude exclude_tags
                   in case preprocess env image_arr input_size of
                        None \<Rightarrow> ([], w1)
                      | Some inp \<Rightarrow>
                          (case sess_run env sess input_name inp of
                             Inl e \<Rightarrow> ([], record_event (Run input_name) w1)
                           | Inr probs \<Rightarrow>
                               (let result_tags =
                                      filter_tags (numpy_promotion env) threshold exclude_list
                                        (zip processed_tags probs) [];
                                    output_tags = build_output prepend_tags result_tags;
                                    w2 = save_tags env folder_path filename output_tags
                                           (record_event (Run input_name) w1)
                                in (output_tags, w2\<lparr>current_image := current_image w2 + 1\<rparr>))))
              | _ \<Rightarrow> ([], w1)))"

section \<open>Sequences of calls and what the log counts\<close>

text \<open>Any number of further calls of \<^verbatim>\<open>load_model_once\<close> for one id, each with its own
  \<^verbatim>\<open>use_gpu\<close>: the results in order and the final state.\<close>

fun load_calls :: "env \<Rightarrow> string \<Rightarrow> bool list \<Rightarrow> world \<Rightarrow> bool list \<times> world" where
  "load_calls env model_name [] w = ([], w)"
| "load_calls env model_name (use_gpu # rest) w =
     (case load_model_once env model_name use_gpu w of
        (ok, w1) \<Rightarrow>
          (case load_calls env model_name rest w1 of
             (oks, w2) \<Rightarrow> (ok # oks, w2)))"

fun is_resolution :: "event \<Rightarrow> bool" where
  "is_resolution (EnsureAvailable model_name) = True"
| "is_resolution e = False"

fun is_session_built :: "event \<Rightarrow> bool" where
  "is_session_built (NewSession model_path providers ok) = ok"
| "is_session_built e = False"

section \<open>An example environment\<close>

text \<open>A remote store that serves both files under their remote names, a rename that moves
  the file and replaces the target, a runtime without
  CUDA whose model takes a 4 by 4 input, a label file whose third data row has one column
  only, a NumPy before 2.0, exact arithmetic for the two float operations, and a resize that repeats the upper
  left pixel.\<close>

definition demo_session :: "string list \<Rightarrow> session" where
  "demo_session providers =
     \<lparr>sess_providers = providers, sess_inputs = [(''input'', [1, 4, 4, 3])]\<rparr>"

definition demo_env :: env where
  "demo_env =
     \<lparr>package_dir = ''/pkg'',
      mkdir = (\<lambda>dir fs. None),
      hf_hub_download = (\<lambda>repo name dir fs.
         (None, fs(dir @ ''/'' @ name \<mapsto>
                     (if name = ''model.onnx'' then ''onnx''
                      else ''id,name;0,Cat;1,blue_sky;bad;2,ear'')))),
      rename = (\<lambda>src dst fs. (None, (fs(src := None))(dst := fs src))),
      InferenceSession = (\<lambda>fs path providers.
         if fs path = None then Inl (Exn ''no such file'')
         else if ''CUDAExecutionProvider'' \<in> set providers then Inl (Exn ''no CUDA'')
         else Inr (demo_session providers)),
      read_csv = (\<lambda>content. Inr (map (str_split CHR '','') (str_split CHR '';'' content))),
      numpy_promotion = Legacy,
      float_div = (\<lambda>a b. real_of_int a / real_of_int b),
      float_mul = (\<lambda>a r. real_of_int a * r),
      resize = (\<lambda>img size. \<lparr>width = nat (fst size), height = nat (snd size),
                              pixel = (\<lambda>row col. pixel img 0 0)\<rparr>),
      sess_run = (\<lambda>sess name inp. Inr [0.9, 0.2, 0.5, 0.99]),
      path_join = (\<lambda>dir name. dir @ ''/'' @ name),
      path_stem = (\<lambda>name. takeWhile (\<lambda>c. c \<noteq> CHR ''.'') name),
      write_text = (\<lambda>path text fs. (None, fs(path \<mapsto> text)))\<rparr>"

text \<open>The state of a fresh process with an empty models directory.\<close>

definition world0 :: world where
  "world0 = \<lparr>model_cache = empty_cache, files = Map.empty, current_image = 0, trace = []\<rparr>"

definition demo_image :: image where
  "demo_image = \<lparr>width = 2, height = 1, pixel = (\<lambda>row col. (10, 20, 30))\<rparr>"

text \<open>The state the first load of \<^verbatim>\<open>wd-vit-tagger-v3\<close> leaves in that environment.\<close>

definition world1 :: world where
  "world1 =
     \<lparr>model_cache =
        \<lparr>c_session = Some (demo_session [''CPUExecutionProvider'']),
         c_tags = Some [''Cat'', ''blue_sky'', ''ear''],
         c_model_name = Some ''wd-vit-tagger-v3'',
         c_input_name = Some ''input'',
         c_input_size = Some 4\<rparr>,
      files = [''/pkg/models/wd-vit-tagger-v3.onnx'' \<mapsto> ''onnx'',
               ''/pkg/models/wd-vit-tagger-v3.csv'' \<mapsto> ''id,name;0,Cat;1,blue_sky;bad;2,ear''],
      current_image = 0,
      trace = [EnsureAvailable ''wd-vit-tagger-v3'',
               Download ''SmilingWolf/wd-vit-tagger-v3'' ''model.onnx'',
               Download ''SmilingWolf/wd-vit-tagger-v3'' ''selected_tags.csv'',
               NewSession ''/pkg/models/wd-vit-tagger-v3.onnx'' [''CPUExecutionProvider''] True]\<rparr>"

text \<open>The same environment with a runtime on which every provider list is accepted.\<close>

definition cuda_env :: env where
  "cuda_env = demo_env\<lparr>InferenceSession := (\<lambda>fs path providers. Inr (demo_session providers))\<rparr>"

text \<open>An image one pixel wide and eight high.\<close>

definition thin_image :: image where
  "thin_image = \<lparr>width = 1, height = 8, pixel = (\<lambda>row col. (10, 20, 30))\<rparr>"


text \<open>The same environment with a remote store whose fetch returns normally and leaves the
  file in a subdirectory instead of under its remote name in the models directory.\<close>

definition misplacing_env :: env where
  "misplacing_env =
     demo_env\<lparr>hf_hub_download := (\<lambda>repo name dir fs.
        (None, fs(dir @ ''/snapshot/'' @ name \<mapsto> ''data'')))\<rparr>"

section \<open>Auxiliary lemmas\<close>

lemma record_event_frame [simp]:
  "model_cache (record_event e w) = model_cache w"
  "files (record_event e w) = files w"
  "current_image (record_event e w) = current_image w"
  "trace (record_event e w) = trace w @ [e]"
  by (simp_all add: record_event_def)

lemma process_tags_append:
  "process_tags ru tags acc = acc @ map (\<lambda>tag. if ru then replace_underscores tag else tag) tags"
  by (induction tags arbitrary: acc) simp_all

lemma filter_tags_append:
  "filter_tags promo th ex ps acc =
     acc @ map fst (filter (\<lambda>(tag, prob). prob > weak_scalar promo th \<and>
                              str_lower tag \<notin> set ex) ps)"
  by (induction promo th ex ps acc rule: filter_tags.induct) (simp_all add: np_greater_def)

lemma filter_tags_not_excluded:
  "tag \<in> set (filter_tags promo th ex ps []) \<Longrightarrow> str_lower tag \<notin> set ex"
  by (auto simp: filter_tags_append)

lemma round_half_even_of_int: "round_half_even (of_int j) = j"
  by (simp add: round_half_even_def)

lemma floor_log2_03: "\<lfloor>log 2 \<bar>5404319552844595 / 2 ^ 54 :: real\<bar>\<rfloor> = - 2"
proof -
  have "(2::real) powr real_of_int (- 2) \<le> 5404319552844595 / 2 ^ 54"
    by (simp add: powr_minus_divide)
  moreover have "(5404319552844595 / 2 ^ 54 :: real) < 2 powr real_of_int (- 2 + 1)"
    by (simp add: powr_minus_divide)
  ultimately show ?thesis
    using floor_log_eq_powr_iff [of "5404319552844595 / 2 ^ 54 :: real" 2 "- 2"] by simp
qed

lemma float32_round_03:
  "float32_round (5404319552844595 / 2 ^ 54) = 5033165 / 2 ^ 24"
proof -
  have q: "(2::real) powi (- 2 - 23) = 1 / 2 ^ 25"
    by (simp add: power_int_minus divide_simps)
  have r: "round_half_even ((5404319552844595 / 2 ^ 54) / (1 / 2 ^ 25)) = 10066330"
  proof -
    have v: "((5404319552844595 / 2 ^ 54) / (1 / 2 ^ 25) :: real) = 5404319552844595 / 2 ^ 29"
      by simp
    have f: "\<lfloor>5404319552844595 / 2 ^ 29 :: real\<rfloor> = 10066329"
      by (simp add: floor_eq_iff)
    show ?thesis
      unfolding v round_half_even_def Let_def f by simp
  qed
  have nz: "(5404319552844595 / 2 ^ 54 :: real) \<noteq> 0" by simp
  show ?thesis
    unfolding float32_round_def Let_def floor_log2_03
    using nz q r by simp
qed


lemma float32_round_fixed:
  assumes "is_float32 x"
  shows "float32_round x = x"
proof (cases "x = 0")
  case True
  then show ?thesis by (simp add: float32_round_def)
next
  case False
  obtain m k where x: "x = of_int m * 2 powi k" and m: "\<bar>m\<bar> < 2 ^ 24" and k: "- 149 \<le> k"
    using assms unfolding is_float32_def by blast
  define e where "e = max \<lfloor>log 2 \<bar>x\<bar>\<rfloor> (- 126)"
  have ax: "\<bar>x\<bar> = of_int \<bar>m\<bar> * 2 powi k"
    unfolding x by (simp add: abs_mult)
  have m': "real_of_int \<bar>m\<bar> < 2 ^ 24"
  proof -
    have "real_of_int \<bar>m\<bar> < real_of_int (2 ^ 24)"
      using m by (simp only: of_int_less_iff)
    then show ?thesis by simp
  qed
  have p: "(0::real) < 2 powi k" by simp
  have "\<bar>x\<bar> < 2 ^ 24 * 2 powi k"
    unfolding ax using m' p by (rule mult_strict_right_mono)
  also have "(2 ^ 24 * 2 powi k :: real) = 2 powi (k + 24)"
    by (simp add: power_int_add)
  also have "(2 powi (k + 24) :: real) = 2 powr real_of_int (k + 24)"
    by (rule powr_real_of_int' [symmetric]) simp_all
  finally have lt: "\<bar>x\<bar> < 2 powr real_of_int (k + 24)" .
  have "log 2 \<bar>x\<bar> < real_of_int (k + 24)"
    using False lt by (subst log_less_iff) simp_all
  then have "\<lfloor>log 2 \<bar>x\<bar>\<rfloor> < k + 24"
    by (simp only: floor_less_iff)
  then have ek: "e - 23 \<le> k"
    unfolding e_def using k by simp
  define n where "n = nat (k - (e - 23))"
  have kn: "k = (e - 23) + int n"
    unfolding n_def using ek by simp
  have pk: "(2 powi k :: real) = 2 powi (e - 23) * 2 ^ n"
    by (subst kn) (simp add: power_int_add)
  have q: "x / 2 powi (e - 23) = of_int (m * 2 ^ n)"
    unfolding x pk by simp
  have "float32_round x = of_int (round_half_even (x / 2 powi (e - 23))) * 2 powi (e - 23)"
    using False by (simp add: float32_round_def Let_def e_def)
  also have "\<dots> = of_int (m * 2 ^ n) * 2 powi (e - 23)"
    unfolding q round_half_even_of_int ..
  also have "\<dots> = x"
    unfolding x pk by simp
  finally show ?thesis .
qed

lemma is_float32_03: "is_float32 (5033165 / 2 ^ 24)"
  unfolding is_float32_def
proof (intro exI conjI)
  show "(5033165 / 2 ^ 24 :: real) = of_int 5033165 * 2 powi (- 24)"
    by (simp add: power_int_minus field_simps)
  show "\<bar>5033165 :: int\<bar> < 2 ^ 24" by simp
  show "- 149 \<le> (- 24 :: int)" by simp
  show "(- 24 :: int) \<le> 104" by simp
qed

lemma weak_scalar_fixed:
  "promo = Legacy \<or> is_float32 x \<Longrightarrow> weak_scalar promo x = x"
  by (cases promo) (auto simp: weak_scalar_def float32_round_fixed)

lemma blue_sky:
  "replace_underscores ''blue_sky'' = ''blue sky''"
  "str_lower ''blue sky'' = ''blue sky''"
  "str_lower ''blue_sky'' = ''blue_sky''"
  "parse_exclude ''blue sky'' = [''blue sky'']"
  by code_simp+

lemma load_tags_append:
  "load_tags rows acc = acc @ map (\<lambda>row. row ! 1) (filter (\<lambda>row. length row > 1) rows)"
proof (induction rows arbitrary: acc)
  case Nil
  show ?case by simp
next
  case (Cons row rows)
  show ?case
  proof (cases row)
    case Nil
    then show ?thesis using Cons by simp
  next
    case (Cons a r)
    then show ?thesis using Cons.IH by (cases r) simp_all
  qed
qed

lemma str_split_no_sep: "sep \<notin> set x \<Longrightarrow> str_split sep x = [x]"
  by (induction x) auto

lemma str_split_field:
  "sep \<notin> set x \<Longrightarrow> str_split sep (x @ sep # rest) = x # str_split sep rest"
  by (induction x) auto

lemma str_split_join:
  "terms \<noteq> [] \<Longrightarrow> \<forall>t\<in>set terms. sep \<notin> set t \<Longrightarrow>
   str_split sep (str_join [sep] terms) = terms"
  by (induction "[sep]" terms rule: str_join.induct)
     (simp_all add: str_split_no_sep str_split_field)

lemma lower_Cat: "str_lower ''Cat'' = ''cat''"
  by code_simp

lemma parse_exclude_set:
  "set (parse_exclude s) =
     {str_lower (str_strip t) | t. t \<in> set (str_split CHR '','' s) \<and> str_strip t \<noteq> []}"
  by (auto simp: parse_exclude_def)

lemma subseq_selected: "subseq (map fst (filter P (zip xs ys))) xs"
proof -
  have "subseq (map fst (filter P (zip xs ys))) (map fst (zip xs ys))"
    by (simp add: subseq_map)
  moreover have "map fst (zip xs ys) = take (length ys) xs"
    by (simp add: map_fst_zip_take min_def)
  moreover have "subseq (take (length ys) xs) xs"
    by (rule prefix_imp_subseq [OF take_is_prefix])
  ultimately show ?thesis
    using subseq_order.trans by metis
qed

lemma zip_take_min:
  "zip (take (min (length xs) (length ys)) xs) (take (min (length xs) (length ys)) ys) = zip xs ys"
  by (metis take_all_iff order_refl length_zip take_zip)




lemma load_model_once_hit:
  "c_model_name (model_cache w) = Some model_name \<Longrightarrow> c_session (model_cache w) \<noteq> None \<Longrightarrow>
   load_model_once env model_name use_gpu w = (True, w)"
  by (simp add: load_model_once_def)

lemma load_model_once_True:
  assumes "load_model_once env model_name use_gpu w = (True, w1)"
  shows "c_model_name (model_cache w1) = Some model_name \<and> c_session (model_cache w1) \<noteq> None"
  using assms
  by (auto simp: load_model_once_def Let_def
           split: if_splits prod.splits sum.splits list.splits option.splits)


lemma tag_batch_tagged:
  assumes "load_model_once env (selected_model_name model) use_gpu w = (True, w1)"
      and "c_session (model_cache w1) = Some sess"
      and "c_tags (model_cache w1) = Some tags"
      and "c_input_name (model_cache w1) = Some input_name"
      and "c_input_size (model_cache w1) = Some input_size"
      and "preprocess env image_arr input_size = Some inp"
      and "sess_run env sess input_name inp = Inr probs"
  shows "fst (tag_batch env image_arr filename folder_path model threshold character_threshold
                replace_underscore use_gpu prepend_tags exclude_tags w) =
         build_output prepend_tags
           (filter_tags (numpy_promotion env) threshold (parse_exclude exclude_tags)
              (zip (process_tags replace_underscore tags []) probs) [])"
  using assms by (simp add: tag_batch_def Let_def)

lemmas demo_defs = demo_env_def demo_session_def world0_def empty_cache_def demo_image_def
  load_model_once_def new_session_def ensure_model_available_def MODEL_CONFIGS_def
  model_dir_def exists_def download_as_def Let_def selected_model_name_def

lemma demo_loaded:
  "load_model_once demo_env ''wd-vit-tagger-v3'' False world0 = (True, world1)"
  by (simp add: demo_defs world1_def record_event_def fun_upd_twist)

lemma demo_preprocess:
  "\<exists>inp. preprocess demo_env (Some demo_image) 4 = Some inp"
  by (simp add: preprocess_def demo_env_def demo_image_def py_int_def Let_def)

lemma download_as_trace:
  "trace (snd (download_as env config remote_name local_path w)) =
     trace w @ [Download (cfg_repo_id config) remote_name]"
  by (simp add: download_as_def Let_def split: prod.splits option.splits)

lemma ensure_model_available_trace:
  "length (filter is_resolution (trace (snd (ensure_model_available env model_name w)))) =
     length (filter is_resolution (trace w)) + 1"
  "filter is_session_built (trace (snd (ensure_model_available env model_name w))) =
     filter is_session_built (trace w)"
proof -
  have d: "\<And>c r l w' e. download_as env c r l w' = (e, w1) \<Longrightarrow>
             trace w1 = trace w' @ [Download (cfg_repo_id c) r]" for w1
    using download_as_trace by (metis snd_conv)
  show "length (filter is_resolution (trace (snd (ensure_model_available env model_name w)))) =
     length (filter is_resolution (trace w)) + 1"
    by (auto simp: ensure_model_available_def Let_def dest!: d
             split: option.splits prod.splits if_splits)
  show "filter is_session_built (trace (snd (ensure_model_available env model_name w))) =
     filter is_session_built (trace w)"
    by (auto simp: ensure_model_available_def Let_def dest!: d
             split: option.splits prod.splits if_splits)
qed

lemma new_session_trace:
  "filter is_resolution (trace (snd (new_session env model_path providers w))) =
     filter is_resolution (trace w)"
  "length (filter is_session_built (trace (snd (new_session env model_path providers w))))
     \<le> length (filter is_session_built (trace w)) + 1"
  by (simp_all add: new_session_def Let_def split: sum.splits)

lemma load_model_once_trace:
  assumes "load_model_once env model_name use_gpu w = (ok, w')"
  shows "length (filter is_resolution (trace w')) \<le> length (filter is_resolution (trace w)) + 1"
    and "length (filter is_session_built (trace w'))
           \<le> length (filter is_session_built (trace w)) + 1"
proof -
  have e: "\<And>r w1. ensure_model_available env model_name w = (r, w1) \<Longrightarrow>
            length (filter is_resolution (trace w1)) = length (filter is_resolution (trace w)) + 1
          \<and> filter is_session_built (trace w1) = filter is_session_built (trace w)"
    using ensure_model_available_trace [of env model_name w] by simp
  have n: "\<And>p ps w1 r w2. new_session env p ps w1 = (r, w2) \<Longrightarrow>
            filter is_resolution (trace w2) = filter is_resolution (trace w1)
          \<and> length (filter is_session_built (trace w2))
              \<le> length (filter is_session_built (trace w1)) + 1"
    using new_session_trace by (metis snd_conv)
  show "length (filter is_resolution (trace w')) \<le> length (filter is_resolution (trace w)) + 1"
    using assms
    by (auto simp: load_model_once_def Let_def dest!: e n
             split: if_splits prod.splits sum.splits list.splits option.splits)
  show "length (filter is_session_built (trace w'))
           \<le> length (filter is_session_built (trace w)) + 1"
    using assms
    by (auto simp: load_model_once_def Let_def dest!: e n
             split: if_splits prod.splits sum.splits list.splits option.splits)
qed

lemma load_calls_hit:
  "c_model_name (model_cache w) = Some model_name \<Longrightarrow> c_session (model_cache w) \<noteq> None \<Longrightarrow>
   load_calls env model_name gpus w = (replicate (length gpus) True, w)"
  by (induction gpus) (simp_all add: load_model_once_hit)

lemma tensor_of_square:
  "expand_dims (reverse_channels (astype_float32 (np_array sq))) =
     [map (\<lambda>row. map (\<lambda>col. case pixel sq row col of
                                  (r, g, b) \<Rightarrow> [real (unat b), real (unat g), real (unat r)])
                      [0..<width sq])
        [0..<height sq]]"
  by (simp add: expand_dims_def reverse_channels_def astype_float32_def np_array_def
           split: prod.splits)


lemma preprocess_invalid_dimensions:
  "py_int (float_mul env (int (width img))
             (float_div env input_size (int (max (width img) (height img))))) \<le> 0 \<or>
   py_int (float_mul env (int (height img))
             (float_div env input_size (int (max (width img) (height img))))) \<le> 0 \<Longrightarrow>
   preprocess env (Some img) input_size = None"
  by (auto simp: preprocess_def Let_def)

lemma preprocess_Some:
  assumes "width img \<noteq> 0" "height img \<noteq> 0"
      and "new_w = py_int (float_mul env (int (width img))
                      (float_div env E (int (max (width img) (height img)))))"
      and "new_h = py_int (float_mul env (int (height img))
                      (float_div env E (int (max (width img) (height img)))))"
      and "0 < new_w" "0 < new_h" "0 \<le> E"
  shows "preprocess env (Some img) E =
           Some (expand_dims (reverse_channels (astype_float32 (np_array
              (paste (Image_new E white) (resize env img (new_w, new_h))
                 ((E - new_w) div 2, (E - new_h) div 2))))))"
  using assms by (simp add: preprocess_def Let_def)

lemma py_int_exact:
  assumes "0 \<le> a" "0 \<le> E" "0 < m"
  shows "py_int (real_of_int a * (real_of_int E / real_of_int m)) = (a * E) div m"
proof -
  have "0 \<le> real_of_int a * (real_of_int E / real_of_int m)"
    using assms by simp
  moreover have "real_of_int a * (real_of_int E / real_of_int m) = real_of_int (a * E) / real_of_int m"
    by simp
  ultimately show ?thesis
    by (simp only: py_int_def if_True floor_divide_of_int_eq)
qed

lemma tag_batch_preprocess_None:
  assumes "load_model_once env (selected_model_name model) use_gpu w = (True, w1)"
      and "c_input_size (model_cache w1) = Some E"
      and "preprocess env image_arr E = None"
  shows "tag_batch env image_arr filename folder_path model threshold character_threshold
           replace_underscore use_gpu prepend_tags exclude_tags w = ([], w1)"
  using assms by (simp add: tag_batch_def Let_def split: option.splits)






lemma transfer_failure_reported:
  assumes "map_of MODEL_CONFIGS model_name = Some config"
      and "mkdir env (model_dir env) (files w) = None"
      and "\<not> exists (files w) (path_join env (model_dir env) (model_name @ ''.onnx''))"
      and "fst (hf_hub_download env (cfg_repo_id config) (cfg_filename config) (model_dir env)
                 (files w)) = Some e"
  shows "fst (ensure_model_available env model_name w) = Inr (False, [], [])"
proof -
  obtain fs' where "hf_hub_download env (cfg_repo_id config) (cfg_filename config) (model_dir env)
                      (files w) = (Some e, fs')"
    using assms(4) by (metis fst_conv surj_pair)
  then show ?thesis
    using assms(1,2,3)
    by (simp add: ensure_model_available_def download_as_def Let_def)
qed

section \<open>Claims\<close>

text \<open>
  C3, as stated, fails under NumPy 2.0 or later: with the threshold 0.3 (the double
  \<open>5404319552844595 / 2 ^ 54\<close>) and the probability \<open>5033165 / 2 ^ 24\<close> (the \<^verbatim>\<open>float32\<close>
  nearest to 0.3), the probability is strictly greater than the threshold and the label
  is not excluded, yet it is not selected, because the threshold is rounded to that same
  \<^verbatim>\<open>float32\<close> before the comparison.
\<close>

theorem selection_rounds_threshold:
  "(5404319552844595 / 2 ^ 54 :: real) < 5033165 / 2 ^ 24 \<and>
   str_lower ''ear'' \<notin> set [] \<and>
   filter_tags NEP50 (5404319552844595 / 2 ^ 54) [] [(''ear'', 5033165 / 2 ^ 24)] [] = []"
proof -
  have w: "weak_scalar NEP50 (5404319552844595 / 2 ^ 54) = 5033165 / 2 ^ 24"
    by (simp only: weak_scalar_def promotion.case float32_round_03)
  have "\<not> np_greater NEP50 (5033165 / 2 ^ 24) (5404319552844595 / 2 ^ 54)"
    unfolding np_greater_def w by simp
  then have "filter_tags NEP50 (5404319552844595 / 2 ^ 54) [] [(''ear'', 5033165 / 2 ^ 24)] [] = []"
    by (simp only: filter_tags.simps if_False simp_thms)
  moreover have "(5404319552844595 / 2 ^ 54 :: real) < 5033165 / 2 ^ 24"
    by simp
  ultimately show ?thesis
    by simp
qed

text \<open>
  C3, amended. A label is selected exactly when its probability is strictly greater than
  the threshold as NumPy takes it for the comparison (the threshold itself before NumPy
  2.0, the threshold rounded to \<^verbatim>\<open>float32\<close> from NumPy 2.0 on) and the lowercase form of
  the (already transformed) label is not in the exclusion list: the loop of lines 487--490
  returns, in order, the labels of the pairs that satisfy both conditions, and a single
  pair yields its label if and only if it satisfies both. Before NumPy 2.0, and whenever
  the threshold is itself a \<^verbatim>\<open>float32\<close> value (as it is when a probability equals it),
  NumPy takes the threshold as it is: a label whose probability equals the threshold is
  not selected, and one whose probability is the threshold plus a positive amount is
  selected unless it is excluded. The label \<^verbatim>\<open>Cat\<close> is excluded by the list entry
  \<^verbatim>\<open>cat\<close>.
\<close>

theorem selection_strict_threshold:
  "filter_tags promo threshold exclude_list (zip processed_tags probs) [] =
     map fst (filter (\<lambda>(tag, prob). prob > weak_scalar promo threshold \<and>
                        str_lower tag \<notin> set exclude_list)
                (zip processed_tags probs))
   \<and> (filter_tags promo threshold exclude_list [(tag, prob)] [] = [tag]) =
       (prob > weak_scalar promo threshold \<and> str_lower tag \<notin> set exclude_list)
   \<and> weak_scalar Legacy threshold = threshold
   \<and> weak_scalar NEP50 threshold = float32_round threshold
   \<and> (promo = Legacy \<or> is_float32 threshold \<longrightarrow> weak_scalar promo threshold = threshold)
   \<and> (promo = Legacy \<or> is_float32 threshold \<longrightarrow>
        filter_tags promo threshold exclude_list [(tag, threshold)] [] = [])
   \<and> ((promo = Legacy \<or> is_float32 threshold) \<and> 0 < eps \<and>
         str_lower tag \<notin> set exclude_list \<longrightarrow>
        filter_tags promo threshold exclude_list [(tag, threshold + eps)] [] = [tag])
   \<and> filter_tags promo threshold [''cat''] [(''Cat'', prob)] [] = []"
proof -
  have fixed: "weak_scalar promo threshold = threshold" if "promo = Legacy \<or> is_float32 threshold"
    using that by (rule weak_scalar_fixed)
  have c1: "filter_tags promo threshold exclude_list (zip processed_tags probs) [] =
     map fst (filter (\<lambda>(tag, prob). prob > weak_scalar promo threshold \<and>
                        str_lower tag \<notin> set exclude_list)
                (zip processed_tags probs))"
    by (simp add: filter_tags_append)
  have c2: "(filter_tags promo threshold exclude_list [(tag, prob)] [] = [tag]) =
       (prob > weak_scalar promo threshold \<and> str_lower tag \<notin> set exclude_list)"
    by (simp add: filter_tags_append)
  have c3: "weak_scalar Legacy threshold = threshold"
    and c4: "weak_scalar NEP50 threshold = float32_round threshold"
    by (simp_all add: weak_scalar_def)
  have c6: "filter_tags promo threshold exclude_list [(tag, threshold)] [] = []"
    if "promo = Legacy \<or> is_float32 threshold"
    using fixed [OF that] by (simp add: filter_tags_append)
  have c7: "filter_tags promo threshold exclude_list [(tag, threshold + eps)] [] = [tag]"
    if "(promo = Legacy \<or> is_float32 threshold) \<and> 0 < eps \<and> str_lower tag \<notin> set exclude_list"
    using fixed that by (simp add: filter_tags_append)
  have c8: "filter_tags promo threshold [''cat''] [(''Cat'', prob)] [] = []"
    by (simp add: filter_tags_append lower_Cat)
  show ?thesis
    using c1 c2 c3 c4 fixed c6 c7 c8 by blast
qed

theorem selection_strict_threshold_witness:
  "is_float32 (5033165 / 2 ^ 24) \<and> (0::real) < 1 / 2 ^ 24 \<and>
   str_lower ''ear'' \<notin> set [''cat''] \<and> (0::real) < 0.01 \<and>
   filter_tags NEP50 (5033165 / 2 ^ 24) [''cat''] [(''ear'', 5033165 / 2 ^ 24)] [] = [] \<and>
   filter_tags NEP50 (5033165 / 2 ^ 24) [''cat''] [(''ear'', 5033165 / 2 ^ 24 + 1 / 2 ^ 24)] [] =
     [''ear''] \<and>
   filter_tags Legacy 0.35 [''cat''] [(''ear'', 0.35)] [] = [] \<and>
   filter_tags Legacy 0.35 [''cat''] [(''ear'', 0.35 + 0.01)] [] = [''ear''] \<and>
   filter_tags NEP50 (5404319552844595 / 2 ^ 54) [''cat''] [(''ear'', 5033166 / 2 ^ 24)] [] =
     [''ear''] \<and>
   filter_tags Legacy 0.35 [''cat''] [(''Cat'', 0.9)] [] = [] \<and>
   filter_tags Legacy 0.35 [''Cat''] [(''Cat'', 0.9)] [] = [''Cat'']"
proof -
  have f: "is_float32 (5033165 / 2 ^ 24)"
    by (rule is_float32_03)
  have e: "(0::real) < 1 / 2 ^ 24" "(0::real) < 0.01"
    by simp_all
  have l: "str_lower ''ear'' \<notin> set [''cat'']"
    by (simp add: str_lower_def lower_char_def)
  note N = selection_strict_threshold [where promo = NEP50 and threshold = "5033165 / 2 ^ 24"
      and exclude_list = "[''cat'']" and tag = "''ear''" and eps = "1 / 2 ^ 24"]
  have a: "filter_tags NEP50 (5033165 / 2 ^ 24) [''cat''] [(''ear'', 5033165 / 2 ^ 24)] [] = []"
    using N f by blast
  have b: "filter_tags NEP50 (5033165 / 2 ^ 24) [''cat'']
             [(''ear'', 5033165 / 2 ^ 24 + 1 / 2 ^ 24)] [] = [''ear'']"
    using N f e(1) l by blast
  note L = selection_strict_threshold [where promo = Legacy and threshold = "0.35"
      and exclude_list = "[''cat'']" and tag = "''ear''" and eps = "0.01"]
  have c: "filter_tags Legacy 0.35 [''cat''] [(''ear'', 0.35)] [] = []"
    using L by blast
  have d: "filter_tags Legacy 0.35 [''cat''] [(''ear'', 0.35 + 0.01)] [] = [''ear'']"
    using L e(2) l by blast
  have g: "filter_tags NEP50 (5404319552844595 / 2 ^ 54) [''cat''] [(''ear'', 5033166 / 2 ^ 24)] [] =
             [''ear'']"
  proof -
    note R = selection_strict_threshold [where promo = NEP50
        and threshold = "5404319552844595 / 2 ^ 54" and exclude_list = "[''cat'']"
        and tag = "''ear''" and prob = "5033166 / 2 ^ 24"]
    have w: "weak_scalar NEP50 (5404319552844595 / 2 ^ 54) = 5033165 / 2 ^ 24"
      using R float32_round_03 by simp
    have "(5033166 / 2 ^ 24 :: real) > weak_scalar NEP50 (5404319552844595 / 2 ^ 54)"
      unfolding w by simp
    then show ?thesis
      using R l by blast
  qed
  have h: "filter_tags Legacy 0.35 [''cat''] [(''Cat'', 0.9)] [] = []"
    using selection_strict_threshold [where promo = Legacy and threshold = "0.35"
      and prob = "0.9"] by blast
  have i: "filter_tags Legacy 0.35 [''Cat''] [(''Cat'', 0.9)] [] = [''Cat'']"
  proof -
    note C = selection_strict_threshold [where promo = Legacy and threshold = "0.35"
        and exclude_list = "[''Cat'']" and tag = "''Cat''" and prob = "0.9"]
    have "weak_scalar Legacy 0.35 = 0.35"
      using C by blast
    then have "(0.9::real) > weak_scalar Legacy 0.35"
      by simp
    moreover have "str_lower ''Cat'' \<notin> set [''Cat'']"
      by (simp add: lower_Cat)
    ultimately show ?thesis
      using C by blast
  qed
  show ?thesis
    by (intro conjI) (rule f e l a b c d g h i)+
qed

text \<open>
  C4. The underscore transform (every underscore replaced by a space when
  \<^verbatim>\<open>replace_underscore\<close> is true, the label unchanged otherwise) is applied to every
  label before the exclusion test; the test compares the lowercase form of the transformed
  label with the terms of the exclude string, which are its comma-separated fields,
  stripped, lowercased, the empty ones dropped. Hence whenever one of the comma-separated
  terms of the exclude string equals a transformed label up to case and surrounding
  whitespace, that label is not among the selected tags; in particular a term that is
  \<^verbatim>\<open>cat\<close> up to case and surrounding whitespace removes the label \<^verbatim>\<open>Cat\<close> for either
  value of \<^verbatim>\<open>replace_underscore\<close>. The transform decides the outcome where the label has
  an underscore: \<^verbatim>\<open>blue_sky\<close> becomes \<^verbatim>\<open>blue sky\<close>, so the exclude string
  \<^verbatim>\<open>blue sky\<close> removes it when \<^verbatim>\<open>replace_underscore\<close> is true and keeps it (if its
  probability passes the threshold) when it is false.
\<close>

theorem exclusion_after_transform:
  "filter_tags promo threshold (parse_exclude exclude_tags)
     (zip (process_tags replace_underscore tags []) probs) [] =
   map fst (filter (\<lambda>(tag, prob). prob > weak_scalar promo threshold \<and>
                      str_lower tag \<notin> set (parse_exclude exclude_tags))
              (zip (map (\<lambda>tag. if replace_underscore then replace_underscores tag else tag) tags)
                 probs))
   \<and> set (parse_exclude exclude_tags) =
       {str_lower (str_strip u) | u. u \<in> set (str_split CHR '','' exclude_tags) \<and> str_strip u \<noteq> []}
   \<and> (t \<in> set terms \<and> (\<forall>u\<in>set terms. CHR '','' \<notin> set u) \<and> str_strip t \<noteq> [] \<and>
      str_lower (str_strip t) = str_lower label \<longrightarrow>
        label \<notin> set (filter_tags promo threshold (parse_exclude (str_join '','' terms))
                       (zip (process_tags replace_underscore tags []) probs) []))
   \<and> (t \<in> set terms \<and> (\<forall>u\<in>set terms. CHR '','' \<notin> set u) \<and>
      str_lower (str_strip t) = ''cat'' \<longrightarrow>
        ''Cat'' \<notin> set (filter_tags promo threshold (parse_exclude (str_join '','' terms))
                         (zip (process_tags replace_underscore tags []) probs) []))
   \<and> replace_underscores ''blue_sky'' = ''blue sky''
   \<and> filter_tags promo threshold (parse_exclude ''blue sky'')
       (zip (process_tags True [''blue_sky''] []) [prob]) [] = []
   \<and> (weak_scalar promo threshold < prob \<longrightarrow>
        filter_tags promo threshold (parse_exclude ''blue sky'')
          (zip (process_tags False [''blue_sky''] []) [prob]) [] = [''blue_sky''])"
proof -
  have general: "label \<notin> set (filter_tags promo threshold (parse_exclude (str_join '','' terms))
                       (zip (process_tags replace_underscore tags []) probs) [])"
    if h: "t \<in> set terms" "\<forall>u\<in>set terms. CHR '','' \<notin> set u" "str_strip t \<noteq> []"
          "str_lower (str_strip t) = str_lower label" for label
  proof -
    have ne: "terms \<noteq> []" using h(1) by auto
    have split: "str_split CHR '','' (str_join '','' terms) = terms"
      using str_split_join [OF ne h(2)] .
    have "str_lower label \<in> set (parse_exclude (str_join '','' terms))"
      using h(1,3,4) unfolding parse_exclude_set split by force
    then show ?thesis
      using filter_tags_not_excluded by metis
  qed
  have cat: "''Cat'' \<notin> set (filter_tags promo threshold (parse_exclude (str_join '','' terms))
                         (zip (process_tags replace_underscore tags []) probs) [])"
    if h: "t \<in> set terms" "\<forall>u\<in>set terms. CHR '','' \<notin> set u"
          "str_lower (str_strip t) = ''cat''"
  proof -
    have "str_strip t \<noteq> []"
      using h(3) by (auto simp: str_lower_def)
    then show ?thesis
      using general [of "''Cat''"] h lower_Cat by simp
  qed
  have c1: "filter_tags promo threshold (parse_exclude exclude_tags)
     (zip (process_tags replace_underscore tags []) probs) [] =
   map fst (filter (\<lambda>(tag, prob). prob > weak_scalar promo threshold \<and>
                      str_lower tag \<notin> set (parse_exclude exclude_tags))
              (zip (map (\<lambda>tag. if replace_underscore then replace_underscores tag else tag) tags)
                 probs))"
    by (simp add: filter_tags_append process_tags_append)
  have c5: "replace_underscores ''blue_sky'' = ''blue sky''"
    by (rule blue_sky(1))
  have c6: "filter_tags promo threshold (parse_exclude ''blue sky'')
       (zip (process_tags True [''blue_sky''] []) [prob]) [] = []"
    by (simp add: filter_tags_append process_tags_append blue_sky)
  have c7: "filter_tags promo threshold (parse_exclude ''blue sky'')
          (zip (process_tags False [''blue_sky''] []) [prob]) [] = [''blue_sky'']"
    if "weak_scalar promo threshold < prob"
    using that by (simp add: filter_tags_append process_tags_append blue_sky)
  show ?thesis
    using c1 parse_exclude_set [of exclude_tags] general [of label] cat c5 c6 c7 by blast
qed

theorem exclusion_after_transform_witness:
  "'' cat'' \<in> set [''dog'', '' cat''] \<and> str_lower (str_strip '' cat'') = ''cat'' \<and>
   CHR '','' \<notin> set ''dog'' \<and> CHR '','' \<notin> set '' cat'' \<and>
   str_join '','' [''dog'', '' cat''] = ''dog, cat'' \<and>
   ''Cat'' \<notin> set (filter_tags Legacy 0.35 (parse_exclude ''dog, cat'')
                     (zip (process_tags True [''Cat'', ''blue_sky''] []) [0.9, 0.8]) []) \<and>
   ''Cat'' \<notin> set (filter_tags Legacy 0.35 (parse_exclude ''dog, cat'')
                     (zip (process_tags False [''Cat'', ''blue_sky''] []) [0.9, 0.8]) []) \<and>
   weak_scalar Legacy 0.35 < 0.8 \<and>
   filter_tags Legacy 0.35 (parse_exclude ''blue sky'')
     (zip (process_tags True [''blue_sky''] []) [0.8]) [] = [] \<and>
   filter_tags Legacy 0.35 (parse_exclude ''blue sky'')
     (zip (process_tags False [''blue_sky''] []) [0.8]) [] = [''blue_sky'']"
proof -
  have h1: "'' cat'' \<in> set [''dog'', '' cat'']" by simp
  have h2: "str_lower (str_strip '' cat'') = ''cat''" by code_simp
  have h3: "\<forall>u\<in>set [''dog'', '' cat'']. CHR '','' \<notin> set u" by simp
  have j: "str_join '','' [''dog'', '' cat''] = ''dog, cat''" by simp
  have a: "''Cat'' \<notin> set (filter_tags Legacy 0.35 (parse_exclude ''dog, cat'')
                     (zip (process_tags True [''Cat'', ''blue_sky''] []) [0.9, 0.8]) [])"
    using exclusion_after_transform [where t = "'' cat''" and terms = "[''dog'', '' cat'']"
          and replace_underscore = True and promo = Legacy
          and tags = "[''Cat'', ''blue_sky'']" and probs = "[0.9, 0.8]" and threshold = "0.35"]
      h1 h2 h3
    unfolding j by blast
  have b: "''Cat'' \<notin> set (filter_tags Legacy 0.35 (parse_exclude ''dog, cat'')
                     (zip (process_tags False [''Cat'', ''blue_sky''] []) [0.9, 0.8]) [])"
    using exclusion_after_transform [where t = "'' cat''" and terms = "[''dog'', '' cat'']"
          and replace_underscore = False and promo = Legacy
          and tags = "[''Cat'', ''blue_sky'']" and probs = "[0.9, 0.8]" and threshold = "0.35"]
      h1 h2 h3
    unfolding j by blast
  have c: "CHR '','' \<notin> set ''dog''" "CHR '','' \<notin> set '' cat''"
    using h3 by simp_all
  have w: "weak_scalar Legacy 0.35 < 0.8"
    by (simp add: weak_scalar_def)
  note B = exclusion_after_transform [where promo = Legacy and threshold = "0.35" and prob = "0.8"]
  have d: "filter_tags Legacy 0.35 (parse_exclude ''blue sky'')
     (zip (process_tags True [''blue_sky''] []) [0.8]) [] = []"
    using B by blast
  have e: "filter_tags Legacy 0.35 (parse_exclude ''blue sky'')
     (zip (process_tags False [''blue_sky''] []) [0.8]) [] = [''blue_sky'']"
    using B w by blast
  show ?thesis
    by (intro conjI) (rule h1 h2 c j a b w d e)+
qed

text \<open>
  C5. The output string is the stripped prepend text, then the separator \<^verbatim>\<open>", "\<close>
  exactly when the stripped prepend text is not empty and at least one tag was selected,
  then the selected tags joined by \<^verbatim>\<open>", "\<close>. With an empty prepend text it is the
  joined tags alone, with no selected tag it is the stripped prepend text alone. The
  selected tags are a subsequence of the transformed labels in label-file order: nothing
  is reordered. This string is what \<^verbatim>\<open>tag_batch\<close> returns once the model is loaded,
  preprocessing has succeeded and inference has returned.
\<close>

theorem output_composition:
  "build_output prepend_tags result_tags =
     str_strip prepend_tags
       @ (if str_strip prepend_tags \<noteq> [] \<and> result_tags \<noteq> [] then '', '' else [])
       @ str_join '', '' result_tags
   \<and> (str_strip prepend_tags = [] \<longrightarrow>
        build_output prepend_tags result_tags = str_join '', '' result_tags)
   \<and> (result_tags = [] \<longrightarrow> build_output prepend_tags result_tags = str_strip prepend_tags)
   \<and> subseq (filter_tags promo threshold exclude_list
                (zip (process_tags replace_underscore tags []) probs) [])
        (map (\<lambda>tag. if replace_underscore then replace_underscores tag else tag) tags)
   \<and> (load_model_once env (selected_model_name model) use_gpu w = (True, w1) \<and>
      c_session (model_cache w1) = Some sess \<and>
      c_tags (model_cache w1) = Some tags \<and>
      c_input_name (model_cache w1) = Some input_name \<and>
      c_input_size (model_cache w1) = Some input_size \<and>
      preprocess env image_arr input_size = Some inp \<and>
      sess_run env sess input_name inp = Inr probs \<longrightarrow>
      fst (tag_batch env image_arr filename folder_path model threshold character_threshold
             replace_underscore use_gpu prepend_tags exclude_tags w) =
        build_output prepend_tags
          (filter_tags (numpy_promotion env) threshold (parse_exclude exclude_tags)
             (zip (process_tags replace_underscore tags []) probs) []))"
  using tag_batch_tagged [of env model use_gpu w w1 sess tags input_name input_size image_arr inp probs]
  by (simp add: build_output_def Let_def filter_tags_append process_tags_append subseq_selected)

theorem output_composition_witness:
  "str_strip [] = [] \<and> build_output [] [''ear''] = ''ear'' \<and>
   build_output ''studio'' [] = ''studio'' \<and>
   build_output ''studio'' [''ear'', ''tail''] = ''studio, ear, tail'' \<and>
   load_model_once demo_env (selected_model_name ''wd-vit-tagger-v3'') False world0 = (True, world1) \<and>
   (\<exists>inp. preprocess demo_env (Some demo_image) 4 = Some inp \<and>
      sess_run demo_env (demo_session [''CPUExecutionProvider'']) ''input'' inp =
        Inr [0.9, 0.2, 0.5, 0.99]) \<and>
   fst (tag_batch demo_env (Some demo_image) ''a.png'' [] ''wd-vit-tagger-v3'' 0.35 0.85
          True False '' studio '' [] world0) = ''studio, Cat, ear''"
proof -
  have s: "str_strip [] = []" "str_strip ''studio'' = ''studio''" "str_strip '' studio '' = ''studio''"
    by (simp_all add: str_strip_def isspace_def)
  have b: "build_output [] [''ear''] = ''ear''" "build_output ''studio'' [] = ''studio''"
      "build_output ''studio'' [''ear'', ''tail''] = ''studio, ear, tail''"
    using s
      output_composition [where prepend_tags = "[]" and result_tags = "[''ear'']" and tags = "[]"]
      output_composition [where prepend_tags = "''studio''" and result_tags = "[]" and tags = "[]"]
      output_composition [where prepend_tags = "''studio''" and result_tags = "[''ear'', ''tail'']"
          and tags = "[]"]
    by simp_all
  obtain inp where p: "preprocess demo_env (Some demo_image) 4 = Some inp"
    using demo_preprocess by blast
  have r: "sess_run demo_env (demo_session [''CPUExecutionProvider'']) ''input'' inp =
             Inr [0.9, 0.2, 0.5, 0.99]"
    by (simp add: demo_env_def)
  have l: "load_model_once demo_env (selected_model_name ''wd-vit-tagger-v3'') False world0 =
             (True, world1)"
    using demo_loaded by (simp add: selected_model_name_def)
  have c: "c_session (model_cache world1) = Some (demo_session [''CPUExecutionProvider''])"
    "c_tags (model_cache world1) = Some [''Cat'', ''blue_sky'', ''ear'']"
    "c_input_name (model_cache world1) = Some ''input''"
    "c_input_size (model_cache world1) = Some 4"
    by (simp_all add: world1_def)
  have e: "parse_exclude [] = []"
    by (simp add: parse_exclude_def str_strip_def)
  have "fst (tag_batch demo_env (Some demo_image) ''a.png'' [] ''wd-vit-tagger-v3'' 0.35 0.85
          True False '' studio '' [] world0) =
        build_output '' studio ''
          (filter_tags (numpy_promotion demo_env) 0.35 (parse_exclude [])
             (zip (process_tags True [''Cat'', ''blue_sky'', ''ear''] []) [0.9, 0.2, 0.5, 0.99]) [])"
    using output_composition [where env = demo_env and model = "''wd-vit-tagger-v3''"
        and use_gpu = False and w = world0 and ?w1.0 = world1 and tags = "[''Cat'', ''blue_sky'', ''ear'']"
        and sess = "demo_session [''CPUExecutionProvider'']" and input_name = "''input''"
        and input_size = 4 and image_arr = "Some demo_image" and inp = inp
        and probs = "[0.9, 0.2, 0.5, 0.99]" and threshold = "0.35" and replace_underscore = True
        and prepend_tags = "'' studio ''" and exclude_tags = "[]" and filename = "''a.png''"
        and folder_path = "[]" and character_threshold = "0.85",
        THEN conjunct2, THEN conjunct2, THEN conjunct2, THEN conjunct2]
      l c p r by blast
  then have t: "fst (tag_batch demo_env (Some demo_image) ''a.png'' [] ''wd-vit-tagger-v3'' 0.35 0.85
          True False '' studio '' [] world0) = ''studio, Cat, ear''"
    by (simp add: e s build_output_def replace_underscores_def demo_env_def np_greater_def
          weak_scalar_def)
  show ?thesis
    using s(1) b l p r t by blast
qed

text \<open>
  C8. Two calls of \<^verbatim>\<open>tag_batch\<close> that differ only in \<^verbatim>\<open>character_threshold\<close>
  return the same string and leave the same state, the written tag file included.
\<close>

theorem character_threshold_unused:
  "tag_batch env image_arr filename folder_path model threshold character_threshold
     replace_underscore use_gpu prepend_tags exclude_tags w =
   tag_batch env image_arr filename folder_path model threshold character_threshold'
     replace_underscore use_gpu prepend_tags exclude_tags w"
  by (simp add: tag_batch_def)

text \<open>
  C10. When the cached label list and the probability vector differ in length, the call
  does not fail: once the model is loaded, preprocessing has succeeded and inference has
  returned, the result is the output built from the first \<open>min N M\<close> index-aligned pairs,
  where \<open>N\<close> is the number of labels and \<open>M\<close> the number of probabilities; the rest of the
  longer sequence is ignored. (Loading keeps the second column of every row that has one
  and skips the others, which is one way for the two lengths to differ.)
\<close>

theorem length_mismatch_truncates:
  assumes "load_model_once env (selected_model_name model) use_gpu w = (True, w1)"
      and "c_session (model_cache w1) = Some sess"
      and "c_tags (model_cache w1) = Some tags"
      and "c_input_name (model_cache w1) = Some input_name"
      and "c_input_size (model_cache w1) = Some input_size"
      and "preprocess env image_arr input_size = Some inp"
      and "sess_run env sess input_name inp = Inr probs"
      and "k = min (length tags) (length probs)"
  shows "fst (tag_batch env image_arr filename folder_path model threshold character_threshold
                replace_underscore use_gpu prepend_tags exclude_tags w) =
         build_output prepend_tags
           (filter_tags (numpy_promotion env) threshold (parse_exclude exclude_tags)
              (zip (take k (process_tags replace_underscore tags [])) (take k probs)) [])
       \<and> length (zip (process_tags replace_underscore tags []) probs) = k
       \<and> load_tags rows [] = map (\<lambda>row. row ! 1) (filter (\<lambda>row. length row > 1) rows)"
proof -
  have len: "length (process_tags replace_underscore tags []) = length tags"
    by (simp add: process_tags_append)
  have "zip (take k (process_tags replace_underscore tags [])) (take k probs) =
        zip (process_tags replace_underscore tags []) probs"
    using zip_take_min [of "process_tags replace_underscore tags []" probs] assms(8) len
    by simp
  then show ?thesis
    using tag_batch_tagged [OF assms(1-7)] len assms(8)
    by (simp add: load_tags_append)
qed

theorem length_mismatch_truncates_witness:
  "load_model_once demo_env (selected_model_name ''wd-vit-tagger-v3'') False world0 = (True, world1) \<and>
   c_tags (model_cache world1) = Some [''Cat'', ''blue_sky'', ''ear''] \<and>
   (\<exists>inp. preprocess demo_env (Some demo_image) 4 = Some inp \<and>
      sess_run demo_env (demo_session [''CPUExecutionProvider'']) ''input'' inp =
        Inr [0.9, 0.2, 0.5, 0.99]) \<and>
   (3::nat) = min (length [''Cat'', ''blue_sky'', ''ear'']) (length [0.9, 0.2, 0.5, 0.99 :: real]) \<and>
   fst (tag_batch demo_env (Some demo_image) ''a.png'' [] ''wd-vit-tagger-v3'' 0.35 0.85
          True False [] [] world0) = ''Cat, ear''"
proof -
  obtain inp where p: "preprocess demo_env (Some demo_image) 4 = Some inp"
    using demo_preprocess by blast
  have r: "sess_run demo_env (demo_session [''CPUExecutionProvider'']) ''input'' inp =
             Inr [0.9, 0.2, 0.5, 0.99]"
    by (simp add: demo_env_def)
  have l: "load_model_once demo_env (selected_model_name ''wd-vit-tagger-v3'') False world0 =
             (True, world1)"
    using demo_loaded by (simp add: selected_model_name_def)
  have c: "c_session (model_cache world1) = Some (demo_session [''CPUExecutionProvider''])"
    "c_tags (model_cache world1) = Some [''Cat'', ''blue_sky'', ''ear'']"
    "c_input_name (model_cache world1) = Some ''input''"
    "c_input_size (model_cache world1) = Some 4"
    by (simp_all add: world1_def)
  have k: "(3::nat) = min (length [''Cat'', ''blue_sky'', ''ear''])
                          (length [0.9, 0.2, 0.5, 0.99 :: real])"
    by simp
  have e: "parse_exclude [] = []"
    by (simp add: parse_exclude_def str_strip_def)
  have s: "str_strip [] = []"
    by (simp add: str_strip_def)
  have "fst (tag_batch demo_env (Some demo_image) ''a.png'' [] ''wd-vit-tagger-v3'' 0.35 0.85
          True False [] [] world0) = ''Cat, ear''"
    using length_mismatch_truncates [OF l c p r k, where threshold = "0.35"
            and replace_underscore = True and prepend_tags = "[]" and exclude_tags = "[]"
            and filename = "''a.png''" and folder_path = "[]" and character_threshold = "0.85"
            and rows = "[]"]
    by (simp add: e s build_output_def replace_underscores_def demo_env_def np_greater_def
          weak_scalar_def)
  then show ?thesis
    using l c p r k by blast
qed

text \<open>
  C7. After a successful \<^verbatim>\<open>load_model_once\<close> for an id, every later call for the same
  id (with any \<^verbatim>\<open>use_gpu\<close>) returns success and leaves the whole state as it was: the
  five cache fields, the files, and the log, so no asset resolution and no session
  construction takes place. The successful call itself resolved the assets at most once and
  built at most one session, so both happen at most once for the id while it stays cached.
\<close>

theorem cache_reuse:
  assumes "load_model_once env model_name use_gpu w = (True, w1)"
  shows "load_calls env model_name gpus w1 = (replicate (length gpus) True, w1)
       \<and> length (filter is_resolution (trace w1)) \<le> length (filter is_resolution (trace w)) + 1
       \<and> length (filter is_session_built (trace w1))
           \<le> length (filter is_session_built (trace w)) + 1"
proof -
  have c: "c_model_name (model_cache w1) = Some model_name" "c_session (model_cache w1) \<noteq> None"
    using load_model_once_True [OF assms] by simp_all
  show ?thesis
    using load_calls_hit [OF c] load_model_once_trace [OF assms] by simp
qed

theorem cache_reuse_witness:
  "load_model_once demo_env ''wd-vit-tagger-v3'' False world0 = (True, world1) \<and>
   load_calls demo_env ''wd-vit-tagger-v3'' [False, True, False] world1 =
     ([True, True, True], world1) \<and>
   length (filter is_resolution (trace world1)) = 1 \<and>
   length (filter is_session_built (trace world1)) = 1"
proof -
  have t: "length (filter is_resolution (trace world1)) = 1"
    "length (filter is_session_built (trace world1)) = 1"
    by (simp_all add: world1_def)
  show ?thesis
    using demo_loaded t cache_reuse [OF demo_loaded, where gpus = "[False, True, False]"]
    by (simp add: numeral_3_eq_3)
qed

text \<open>
  C9. On a cache hit (the cached model name is the requested id and the session is not
  \<^verbatim>\<open>None\<close>), \<^verbatim>\<open>load_model_once\<close> returns success for either value of
  \<^verbatim>\<open>use_gpu\<close> without building a session and leaves the state, every cache field
  included, as it was. So after a first successful load of an id, a call with any other
  \<^verbatim>\<open>use_gpu\<close> keeps the session, and with it the execution backend, of the first load.
\<close>

theorem cache_hit_ignores_use_gpu:
  "(c_model_name (model_cache w) = Some model_name \<and> c_session (model_cache w) \<noteq> None \<longrightarrow>
      load_model_once env model_name use_gpu w = (True, w))
   \<and> (load_model_once env model_name first_use_gpu w0 = (True, w1) \<longrightarrow>
        load_model_once env model_name use_gpu w1 = (True, w1))"
  using load_model_once_hit load_model_once_True by blast

theorem cache_hit_ignores_use_gpu_witness:
  "c_model_name (model_cache world1) = Some ''wd-vit-tagger-v3'' \<and>
   c_session (model_cache world1) \<noteq> None \<and>
   load_model_once cuda_env ''wd-vit-tagger-v3'' True world1 = (True, world1) \<and>
   load_model_once cuda_env ''wd-vit-tagger-v3'' False world0 = (True, world1) \<and>
   map_option sess_providers (c_session (model_cache world1)) = Some [''CPUExecutionProvider'']"
proof -
  have h: "c_model_name (model_cache world1) = Some ''wd-vit-tagger-v3''"
    "c_session (model_cache world1) \<noteq> None"
    "map_option sess_providers (c_session (model_cache world1)) = Some [''CPUExecutionProvider'']"
    by (simp_all add: world1_def demo_session_def)
  have f: "load_model_once cuda_env ''wd-vit-tagger-v3'' False world0 = (True, world1)"
    by (simp add: cuda_env_def demo_defs world1_def record_event_def fun_upd_twist)
  show ?thesis
    using h f cache_hit_ignores_use_gpu [where env = cuda_env and w = world1
        and model_name = "''wd-vit-tagger-v3''" and use_gpu = True]
    by simp
qed

text \<open>
  C6. For a non-empty image of width \<open>W\<close> and height \<open>H\<close> and edge size \<open>E\<close>,
  preprocessing computes the one scale \<open>E / max W H\<close> and the target size
  \<open>(int (W * scale), int (H * scale))\<close>. When a target dimension is at most 0 it fails, and
  \<^verbatim>\<open>tag_batch\<close> returns the empty string. Otherwise the result is a tensor with a
  leading batch dimension of size 1 holding \<open>E\<close> rows of \<open>E\<close> pixels: the pixel of the
  resized image inside the box whose corner is \<open>((E - new_w) div 2, (E - new_h) div 2)\<close>
  (floor division), white (255, 255, 255) outside, each pixel in the order blue, green, red,
  each channel the float of the same value as the byte. With exact arithmetic for the two
  float operations the target size is \<open>(W * E div max W H, H * E div max W H)\<close>.
\<close>

theorem preprocess_letterbox:
  assumes "width img \<noteq> 0" and "height img \<noteq> 0"
      and "ratio = float_div env E (int (max (width img) (height img)))"
      and "new_w = py_int (float_mul env (int (width img)) ratio)"
      and "new_h = py_int (float_mul env (int (height img)) ratio)"
      and "resized = resize env img (new_w, new_h)"
      and "off_x = (E - new_w) div 2" and "off_y = (E - new_h) div 2"
  shows "(new_w \<le> 0 \<or> new_h \<le> 0 \<longrightarrow> preprocess env (Some img) E = None)
       \<and> ((new_w \<le> 0 \<or> new_h \<le> 0) \<and>
            load_model_once env (selected_model_name model) use_gpu w = (True, w1) \<and>
            c_input_size (model_cache w1) = Some E \<longrightarrow>
            fst (tag_batch env (Some img) filename folder_path model threshold
                   character_threshold replace_underscore use_gpu prepend_tags exclude_tags w) = [])
       \<and> (0 < new_w \<and> 0 < new_h \<and> 0 \<le> E \<longrightarrow>
            (\<exists>a. preprocess env (Some img) E = Some [a] \<and> length a = nat E \<and>
               (\<forall>row < nat E. length (a ! row) = nat E \<and>
                  (\<forall>col < nat E.
                     a ! row ! col =
                       (case (if off_x \<le> int col \<and> int col < off_x + int (width resized) \<and>
                                 off_y \<le> int row \<and> int row < off_y + int (height resized)
                              then pixel resized (nat (int row - off_y)) (nat (int col - off_x))
                              else white)
                        of (r, g, b) \<Rightarrow> [real (unat b), real (unat g), real (unat r)])))))
       \<and> (float_div env = (\<lambda>a b. real_of_int a / real_of_int b) \<and>
          float_mul env = (\<lambda>a r. real_of_int a * r) \<and> 0 \<le> E \<longrightarrow>
            new_w = (int (width img) * E) div int (max (width img) (height img)) \<and>
            new_h = (int (height img) * E) div int (max (width img) (height img)))"
proof -
  have nw: "new_w = py_int (float_mul env (int (width img))
                      (float_div env E (int (max (width img) (height img)))))"
   and nh: "new_h = py_int (float_mul env (int (height img))
                      (float_div env E (int (max (width img) (height img)))))"
    using assms(3,4,5) by simp_all
  have none: "preprocess env (Some img) E = None" if "new_w \<le> 0 \<or> new_h \<le> 0"
    using that preprocess_invalid_dimensions [of env img E] nw nh by simp
  have p1: "new_w \<le> 0 \<or> new_h \<le> 0 \<longrightarrow> preprocess env (Some img) E = None"
    using none by simp
  have p2: "(new_w \<le> 0 \<or> new_h \<le> 0) \<and>
            load_model_once env (selected_model_name model) use_gpu w = (True, w1) \<and>
            c_input_size (model_cache w1) = Some E \<longrightarrow>
            fst (tag_batch env (Some img) filename folder_path model threshold
                   character_threshold replace_underscore use_gpu prepend_tags exclude_tags w) = []"
    using none tag_batch_preprocess_None [of env model use_gpu w w1 E "Some img"] by simp
  have p3: "\<exists>a. preprocess env (Some img) E = Some [a] \<and> length a = nat E \<and>
               (\<forall>row < nat E. length (a ! row) = nat E \<and>
                  (\<forall>col < nat E.
                     a ! row ! col =
                       (case (if off_x \<le> int col \<and> int col < off_x + int (width resized) \<and>
                                 off_y \<le> int row \<and> int row < off_y + int (height resized)
                              then pixel resized (nat (int row - off_y)) (nat (int col - off_x))
                              else white)
                        of (r, g, b) \<Rightarrow> [real (unat b), real (unat g), real (unat r)])))"
    if pos: "0 < new_w" "0 < new_h" "0 \<le> E"
  proof -
    let ?sq = "paste (Image_new E white) resized (off_x, off_y)"
    have pre: "preprocess env (Some img) E =
                 Some (expand_dims (reverse_channels (astype_float32 (np_array ?sq))))"
      using preprocess_Some [OF assms(1,2) nw nh pos] assms(6,7,8) by simp
    have dims: "width ?sq = nat E" "height ?sq = nat E"
      by (simp_all add: paste_def Image_new_def)
    have px: "pixel ?sq row col =
               (if off_x \<le> int col \<and> int col < off_x + int (width resized) \<and>
                   off_y \<le> int row \<and> int row < off_y + int (height resized)
                then pixel resized (nat (int row - off_y)) (nat (int col - off_x))
                else white)" for row col
      by (auto simp: paste_def Image_new_def Let_def)
    show ?thesis
      unfolding pre tensor_of_square dims
      by (intro exI [of _ "map (\<lambda>row. map (\<lambda>col. case pixel ?sq row col of
                                  (r, g, b) \<Rightarrow> [real (unat b), real (unat g), real (unat r)])
                      [0..<nat E]) [0..<nat E]"]) (simp add: px)
  qed
  have p4: "new_w = (int (width img) * E) div int (max (width img) (height img)) \<and>
            new_h = (int (height img) * E) div int (max (width img) (height img))"
    if ex: "float_div env = (\<lambda>a b. real_of_int a / real_of_int b)"
           "float_mul env = (\<lambda>a r. real_of_int a * r)" "0 \<le> E"
  proof -
    have m: "0 < int (max (width img) (height img))"
      using assms(1) by simp
    show ?thesis
      unfolding nw nh ex(1,2)
      using py_int_exact [OF _ ex(3) m, of "int (width img)"]
            py_int_exact [OF _ ex(3) m, of "int (height img)"]
      by simp
  qed
  show ?thesis
    using p1 p2 p3 p4 by blast
qed

theorem preprocess_letterbox_witness:
  "width demo_image \<noteq> 0 \<and> height demo_image \<noteq> 0 \<and>
   py_int (float_mul demo_env (int (width demo_image))
             (float_div demo_env 4 (int (max (width demo_image) (height demo_image))))) = 4 \<and>
   py_int (float_mul demo_env (int (height demo_image))
             (float_div demo_env 4 (int (max (width demo_image) (height demo_image))))) = 2 \<and>
   (4 - 4) div 2 = (0::int) \<and> (4 - 2) div 2 = (1::int) \<and>
   (\<exists>a. preprocess demo_env (Some demo_image) 4 = Some [a] \<and> length a = 4 \<and>
        a ! 0 ! 0 = [255, 255, 255] \<and> a ! 1 ! 0 = [30, 20, 10]) \<and>
   width thin_image \<noteq> 0 \<and> height thin_image \<noteq> 0 \<and>
   py_int (float_mul demo_env (int (width thin_image))
             (float_div demo_env 4 (int (max (width thin_image) (height thin_image))))) = 0 \<and>
   preprocess demo_env (Some thin_image) 4 = None"
proof -
  let ?r = "float_div demo_env 4 (int (max (width demo_image) (height demo_image)))"
  have h1: "width demo_image \<noteq> 0" and h2: "height demo_image \<noteq> 0"
    by (simp_all add: demo_image_def)
  have h4: "4 = py_int (float_mul demo_env (int (width demo_image)) ?r)"
   and h5: "2 = py_int (float_mul demo_env (int (height demo_image)) ?r)"
    by (simp_all add: demo_env_def demo_image_def py_int_def)
  have h7: "(0::int) = (4 - 4) div 2" and h8: "(1::int) = (4 - 2) div 2"
    by simp_all
  note T = preprocess_letterbox [OF h1 h2 refl h4 h5 refl h7 h8]
  have "\<exists>a. preprocess demo_env (Some demo_image) 4 = Some [a] \<and> length a = nat 4 \<and>
          (\<forall>row < nat 4. length (a ! row) = nat 4 \<and>
             (\<forall>col < nat 4.
                a ! row ! col =
                  (case (if 0 \<le> int col \<and> int col < 0 + int (width (resize demo_env demo_image (4, 2))) \<and>
                            1 \<le> int row \<and> int row < 1 + int (height (resize demo_env demo_image (4, 2)))
                         then pixel (resize demo_env demo_image (4, 2)) (nat (int row - 1)) (nat (int col - 0))
                         else white)
                   of (r, g, b) \<Rightarrow> [real (unat b), real (unat g), real (unat r)])))"
    using T [THEN conjunct2, THEN conjunct2, THEN conjunct1] by simp
  then obtain a where a: "preprocess demo_env (Some demo_image) 4 = Some [a]" "length a = nat 4"
      and px: "\<And>row col. row < nat 4 \<Longrightarrow> col < nat 4 \<Longrightarrow>
                a ! row ! col =
                  (case (if 0 \<le> int col \<and> int col < 0 + int (width (resize demo_env demo_image (4, 2))) \<and>
                            1 \<le> int row \<and> int row < 1 + int (height (resize demo_env demo_image (4, 2)))
                         then pixel (resize demo_env demo_image (4, 2)) (nat (int row - 1)) (nat (int col - 0))
                         else white)
                   of (r, g, b) \<Rightarrow> [real (unat b), real (unat g), real (unat r)])"
    by blast
  have "a ! 0 ! 0 = [255, 255, 255]"
    using px [of 0 0] by (simp add: white_def)
  moreover have "a ! 1 ! 0 = [30, 20, 10]"
    using px [of 1 0] by (simp add: demo_env_def demo_image_def)
  ultimately have first: "\<exists>a. preprocess demo_env (Some demo_image) 4 = Some [a] \<and> length a = 4 \<and>
        a ! 0 ! 0 = [255, 255, 255] \<and> a ! 1 ! 0 = [30, 20, 10]"
    using a by auto
  let ?q = "float_div demo_env 4 (int (max (width thin_image) (height thin_image)))"
  have g1: "width thin_image \<noteq> 0" and g2: "height thin_image \<noteq> 0"
    by (simp_all add: thin_image_def)
  have g4: "0 = py_int (float_mul demo_env (int (width thin_image)) ?q)"
   and g5: "4 = py_int (float_mul demo_env (int (height thin_image)) ?q)"
    by (simp_all add: demo_env_def thin_image_def py_int_def)
  have second: "preprocess demo_env (Some thin_image) 4 = None"
    using preprocess_letterbox [OF g1 g2 refl g4 g5 refl refl refl, THEN conjunct1] by simp
  show ?thesis
    using h1 h2 h4 h5 first g1 g2 g4 second by simp
qed




text \<open>
  C1. Evaluation of \<^verbatim>\<open>ensure_model_available\<close> for the registered id
  \<^verbatim>\<open>wd-vit-tagger-v3\<close> in a fresh process, with a remote store whose two fetches return
  normally without leaving the file under its remote name in the models directory: neither
  rename takes place, the call returns success with the two canonical paths, and neither
  canonical path exists.
\<close>

theorem success_without_files:
  "fst (ensure_model_available misplacing_env ''wd-vit-tagger-v3'' world0) =
     Inr (True, ''/pkg/models/wd-vit-tagger-v3.onnx'', ''/pkg/models/wd-vit-tagger-v3.csv'') \<and>
   \<not> exists (files (snd (ensure_model_available misplacing_env ''wd-vit-tagger-v3'' world0)))
       ''/pkg/models/wd-vit-tagger-v3.onnx'' \<and>
   \<not> exists (files (snd (ensure_model_available misplacing_env ''wd-vit-tagger-v3'' world0)))
       ''/pkg/models/wd-vit-tagger-v3.csv''"
  by (simp add: misplacing_env_def demo_defs)

end
